theory Spec2Isabelle
  imports Main "HOL-Library.Word" "HOL-Library.AList"
begin

section \<open>Python values, documents and exceptions\<close>

text \<open>
  The server in \<^verbatim>\<open>my_mcp_app/server.py\<close> moves JSON-like values between its callers
  and a MongoDB database. A Python \<^verbatim>\<open>dict\<close> keeps insertion order and has unique
  keys, so it is an association list that is only ever updated through
  \<^const>\<open>AList.update\<close>. The values covered are the ones the handlers inspect or
  build: \<^verbatim>\<open>None\<close>, booleans, integers, strings, BSON object identifiers, lists and
  dictionaries (no floating point numbers, dates or binary data).
\<close>

datatype objectid = ObjectId "96 word"

datatype pyval =
    PNone
  | PBool bool
  | PInt int
  | PStr string
  | PObjectId objectid
  | PList "pyval list"
  | PDict "(string \<times> pyval) list"

type_synonym document = "(string \<times> pyval) list"

text \<open>
  The exceptions of the model. \<^verbatim>\<open>ServerSelectionTimeoutError\<close> is what pymongo raises
  when no server can be reached; it is a subclass of \<^verbatim>\<open>ConnectionFailure\<close>
  (through \<^verbatim>\<open>AutoReconnect\<close>). Every class below is a subclass of \<^verbatim>\<open>Exception\<close>,
  so a clause \<^verbatim>\<open>except Exception\<close> catches each of them. The string is the
  exception's message, which is what \<^verbatim>\<open>str(e)\<close> returns.
\<close>

datatype py_exception =
    ConnectionFailure string
  | ServerSelectionTimeoutError string
  | OperationFailure string
  | DuplicateKeyError string
  | RuntimeError string

fun str_exception :: "py_exception \<Rightarrow> string" where
  "str_exception (ConnectionFailure m) = m"
| "str_exception (ServerSelectionTimeoutError m) = m"
| "str_exception (OperationFailure m) = m"
| "str_exception (DuplicateKeyError m) = m"
| "str_exception (RuntimeError m) = m"

text \<open>\<^verbatim>\<open>isinstance(e, pymongo.errors.ConnectionFailure)\<close>, the test of an
  \<^verbatim>\<open>except pymongo.errors.ConnectionFailure\<close> clause.\<close>

fun is_ConnectionFailure :: "py_exception \<Rightarrow> bool" where
  "is_ConnectionFailure (ConnectionFailure m) = True"
| "is_ConnectionFailure (ServerSelectionTimeoutError m) = True"
| "is_ConnectionFailure (OperationFailure m) = False"
| "is_ConnectionFailure (DuplicateKeyError m) = False"
| "is_ConnectionFailure (RuntimeError m) = False"

subsection \<open>The builtin \<^verbatim>\<open>str\<close>\<close>

definition digit_char :: "nat \<Rightarrow> char" where
  "digit_char n = ''0123456789abcdef'' ! (n mod 16)"

function str_nat :: "nat \<Rightarrow> string" where
  "str_nat n = (if n < 10 then [digit_char n] else str_nat (n div 10) @ [digit_char (n mod 10)])"
  by pat_completeness auto
termination
  by (relation "measure id") auto

definition str_int :: "int \<Rightarrow> string" where
  "str_int i = (if i < 0 then CHR ''-'' # str_nat (nat (- i)) else str_nat (nat i))"

text \<open>\<open>hex_fixed k n\<close> is the last \<open>k\<close> lowercase hexadecimal digits of \<open>n\<close>;
  \<^verbatim>\<open>str(ObjectId(...))\<close> is the 24 hexadecimal digits of the identifier's 12 bytes.\<close>

fun hex_fixed :: "nat \<Rightarrow> nat \<Rightarrow> string" where
  "hex_fixed 0 n = []"
| "hex_fixed (Suc k) n = hex_fixed k (n div 16) @ [digit_char (n mod 16)]"

fun str_objectid :: "objectid \<Rightarrow> string" where
  "str_objectid (ObjectId w) = hex_fixed 24 (unat w)"

text \<open>
  \<^verbatim>\<open>repr\<close> of a string, for code points below 256: the quote is \<^verbatim>\<open>'\<close> unless the
  string contains \<^verbatim>\<open>'\<close> and no \<^verbatim>\<open>"\<close>; the quote and the backslash are escaped with
  a backslash, tab, newline and carriage return by their letters, every other
  non-printable code point as \<^verbatim>\<open>\xNN\<close>.
\<close>

definition repr_quote :: "string \<Rightarrow> char" where
  "repr_quote s = (if CHR 0x27 \<in> set s \<and> CHR 0x22 \<notin> set s then CHR 0x22 else CHR 0x27)"

definition printable :: "char \<Rightarrow> bool" where
  "printable c =
     (let n = (of_char c :: nat)
      in (32 \<le> n \<and> n < 127) \<or> (161 \<le> n \<and> n \<noteq> 173))"

definition repr_char :: "char \<Rightarrow> char \<Rightarrow> string" where
  "repr_char q c =
     (if c = q \<or> c = CHR 0x5C then [CHR 0x5C, c]
      else if c = CHR 0x09 then [CHR 0x5C, CHR ''t'']
      else if c = CHR 0x0A then [CHR 0x5C, CHR ''n'']
      else if c = CHR 0x0D then [CHR 0x5C, CHR ''r'']
      else if printable c then [c]
      else [CHR 0x5C, CHR ''x''] @ hex_fixed 2 (of_char c))"

definition repr_str :: "string \<Rightarrow> string" where
  "repr_str s = (let q = repr_quote s in q # concat (map (repr_char q) s) @ [q])"

fun join_with :: "string \<Rightarrow> string list \<Rightarrow> string" where
  "join_with sep [] = []"
| "join_with sep [x] = x"
| "join_with sep (x # y # ys) = x @ sep @ join_with sep (y # ys)"

fun py_repr :: "pyval \<Rightarrow> string" where
  "py_repr PNone = ''None''"
| "py_repr (PBool b) = (if b then ''True'' else ''False'')"
| "py_repr (PInt i) = str_int i"
| "py_repr (PStr s) = repr_str s"
| "py_repr (PObjectId oid) = ''ObjectId('' @ repr_str (str_objectid oid) @ '')''"
| "py_repr (PList xs) = ''['' @ join_with '', '' (map py_repr xs) @ '']''"
| "py_repr (PDict kvs) =
     ''{'' @ join_with '', '' (map (\<lambda>kv. repr_str (fst kv) @ '': '' @ py_repr (snd kv)) kvs) @ ''}''"

fun py_str :: "pyval \<Rightarrow> string" where
  "py_str (PStr s) = s"
| "py_str (PObjectId oid) = str_objectid oid"
| "py_str v = py_repr v"

text \<open>Truth value of an object in an \<^verbatim>\<open>if\<close>: \<^verbatim>\<open>None\<close>, \<^verbatim>\<open>False\<close>, zero and the empty
  string, list and dictionary are false.\<close>

fun truthy :: "pyval \<Rightarrow> bool" where
  "truthy PNone = False"
| "truthy (PBool b) = b"
| "truthy (PInt i) = (i \<noteq> 0)"
| "truthy (PStr s) = (s \<noteq> [])"
| "truthy (PObjectId oid) = True"
| "truthy (PList xs) = (xs \<noteq> [])"
| "truthy (PDict kvs) = (kvs \<noteq> [])"

section \<open>The database driver\<close>

text \<open>
  The handlers reach MongoDB through pymongo, which is not part of the repository. The
  model keeps what the calls of \<^verbatim>\<open>server.py\<close> depend on: the collections that exist,
  each with its documents in natural (insertion) order, and whether the server is
  failing. When \<open>fault\<close> holds an exception, every call that needs a round trip to the
  server raises it; this is how a lost connection, a time-out or a rejected command
  shows to the caller. Subscripting the database by a collection name
  (\<^verbatim>\<open>app_ctx.db[collection_name]\<close>) builds a handle without a round trip; the handle is
  the name. pymongo refuses to build a handle for a few names (the empty name, a name with
  \<^verbatim>\<open>$\<close> or \<^verbatim>\<open>..\<close>); the model does not distinguish them, so what is proved of a
  handler is proved for the names pymongo accepts.
\<close>

record mongo_server =
  collections :: "(string \<times> document list) list"
  fault :: "py_exception option"
  next_oid :: "96 word"

type_synonym 'a db_call = "mongo_server \<Rightarrow> (py_exception + 'a) \<times> mongo_server"

definition docs_of :: "mongo_server \<Rightarrow> string \<Rightarrow> document list" where
  "docs_of srv name = (case map_of (collections srv) name of None \<Rightarrow> [] | Some ds \<Rightarrow> ds)"

text \<open>
  An equality filter such as \<^verbatim>\<open>{"name": "widget"}\<close>: each of its fields must be equal to
  the document's field, or be an element of it when the document's field is an array;
  \<^verbatim>\<open>None\<close> also matches a missing field. The empty filter matches every document.
\<close>

definition field_matches :: "document \<Rightarrow> string \<times> pyval \<Rightarrow> bool" where
  "field_matches doc kv =
     (case map_of doc (fst kv) of
        None \<Rightarrow> snd kv = PNone
      | Some dv \<Rightarrow> dv = snd kv \<or> (case dv of PList xs \<Rightarrow> snd kv \<in> set xs | _ \<Rightarrow> False))"

definition matches_query :: "document \<Rightarrow> document \<Rightarrow> bool" where
  "matches_query query doc = list_all (field_matches doc) query"

text \<open>\<^verbatim>\<open>client.admin.command('ping')\<close>\<close>

definition command_ping :: "mongo_server \<Rightarrow> py_exception + unit" where
  "command_ping srv = (case fault srv of Some e \<Rightarrow> Inl e | None \<Rightarrow> Inr ())"

text \<open>\<^verbatim>\<open>collection.find_one(query)\<close>: the first matching document, or \<^verbatim>\<open>None\<close>.\<close>

definition find_one :: "string \<Rightarrow> document \<Rightarrow> mongo_server \<Rightarrow> py_exception + document option" where
  "find_one name query srv =
     (case fault srv of
        Some e \<Rightarrow> Inl e
      | None \<Rightarrow> Inr (List.find (matches_query query) (docs_of srv name)))"

text \<open>
  \<^verbatim>\<open>collection.find(query)\<close> builds a cursor and sends nothing; \<^verbatim>\<open>cursor.limit(n)\<close> sets
  the largest number of documents the cursor will return, \<open>0\<close> meaning no limit; the
  query runs when the cursor is iterated, which is where a failure is raised.
\<close>

record cursor =
  cur_fault :: "py_exception option"
  cur_docs :: "document list"
  cur_limit :: nat

definition find :: "string \<Rightarrow> document \<Rightarrow> mongo_server \<Rightarrow> cursor" where
  "find name query srv =
     \<lparr>cur_fault = fault srv,
      cur_docs = filter (matches_query query) (docs_of srv name),
      cur_limit = 0\<rparr>"

definition limit :: "cursor \<Rightarrow> nat \<Rightarrow> cursor" where
  "limit c n = c\<lparr>cur_limit := n\<rparr>"

definition iterate :: "cursor \<Rightarrow> py_exception + document list" where
  "iterate c =
     (case cur_fault c of
        Some e \<Rightarrow> Inl e
      | None \<Rightarrow> Inr (if cur_limit c = 0 then cur_docs c else take (cur_limit c) (cur_docs c)))"

text \<open>\<^verbatim>\<open>db.list_collection_names()\<close>\<close>

definition list_collection_names :: "mongo_server \<Rightarrow> py_exception + string list" where
  "list_collection_names srv =
     (case fault srv of Some e \<Rightarrow> Inl e | None \<Rightarrow> Inr (map fst (collections srv)))"






section \<open>Configuration\<close>

definition MONGODB_URI :: "(string \<Rightarrow> string option) \<Rightarrow> string" where
  "MONGODB_URI environ =
     (case environ ''MONGODB_URI'' of Some v \<Rightarrow> v | None \<Rightarrow> ''mongodb://localhost:27017'')"

definition DATABASE_NAME :: string where
  "DATABASE_NAME = ''my_mcp_db_sync''"

definition mcp_name :: string where
  "mcp_name = ''PyMongoDemoServer''"

section \<open>Lifespan of the connection\<close>

text \<open>
  \<^verbatim>\<open>app_lifespan_sync\<close> is a context manager: the code before \<^verbatim>\<open>yield\<close> runs at
  startup, the server runs while the generator is suspended at \<^verbatim>\<open>yield\<close>, and the
  \<^verbatim>\<open>finally\<close> block runs when the server returns or raises. The model takes the server's
  run as the function \<open>body\<close> of the yielded context and records what happens, in order.
  The test \<^verbatim>\<open>if mongo_client:\<close> of the \<^verbatim>\<open>finally\<close> block is on a client object, which is
  true. An exception of the ping that is not a \<^verbatim>\<open>ConnectionFailure\<close> passes the
  \<^verbatim>\<open>except\<close> clause and leaves the function without the message.
\<close>

record AppContext =
  db :: string
  mongo_client :: string

datatype event =
    Print string
  | Connect string
  | Ping
  | Yield AppContext
  | Close

definition app_lifespan_sync ::
  "(string \<Rightarrow> string option) \<Rightarrow> mongo_server \<Rightarrow> (AppContext \<Rightarrow> py_exception + unit)
     \<Rightarrow> event list \<times> (py_exception + unit)" where
  "app_lifespan_sync environ srv body =
     (let startup =
            [Print ''MCP Server (Sync): Lifespan starting up...'',
             Print (''Attempting to connect to MongoDB at '' @ MONGODB_URI environ @ ''...''),
             Connect (MONGODB_URI environ),
             Ping]
      in case command_ping srv of
           Inl e \<Rightarrow>
             (if is_ConnectionFailure e
              then (startup @ [Print (''Failed to connect to MongoDB: '' @ str_exception e)], Inl e)
              else (startup, Inl e))
         | Inr u \<Rightarrow>
             (let app_ctx = \<lparr>db = DATABASE_NAME, mongo_client = MONGODB_URI environ\<rparr>
              in (startup @
                  [Print (''Successfully connected to MongoDB, database: '' @ [CHR 0x27] @ DATABASE_NAME
                          @ [CHR 0x27] @ ''.''),
                   Yield app_ctx,
                   Print ''MCP Server (Sync): Lifespan shutting down...'',
                   Close,
                   Print ''MongoDB connection closed.'',
                   Print ''MCP Server (Sync): Lifespan shutdown complete.''],
                  body app_ctx)))"

section \<open>Running blocking calls from a coroutine\<close>

text \<open>
  \<^verbatim>\<open>asyncio.get_running_loop()\<close> returns the event loop that is running in the current
  thread and raises \<^verbatim>\<open>RuntimeError\<close> when there is none. The state of a thread is the
  loop it holds, if any, and whether that loop is running. \<^verbatim>\<open>asyncio.to_thread\<close> runs the
  call in a worker thread and hands its result, or the exception it raised, to the
  awaiting coroutine; only the values are modelled, not the threads.
\<close>

record event_loop =
  running :: bool

definition get_running_loop :: "event_loop option \<Rightarrow> py_exception + event_loop" where
  "get_running_loop cur =
     (case cur of
        None \<Rightarrow> Inl (RuntimeError ''no running event loop'')
      | Some l \<Rightarrow> if running l then Inr l else Inl (RuntimeError ''no running event loop''))"

definition is_running :: "event_loop \<Rightarrow> bool" where
  "is_running l = running l"

definition to_thread :: "'a db_call \<Rightarrow> 'a db_call" where
  "to_thread func srv = func srv"

definition run_sync :: "event_loop option \<Rightarrow> 'a db_call \<Rightarrow> 'a db_call" where
  "run_sync cur func srv =
     (case get_running_loop cur of
        Inl e \<Rightarrow> (Inl e, srv)
      | Inr l \<Rightarrow> if is_running l then to_thread func srv else func srv)"

section \<open>Resources\<close>

text \<open>
  Every handler is a coroutine that wraps its database work in a local function
  \<^verbatim>\<open>db_call_sync\<close> and awaits \<^verbatim>\<open>run_sync(db_call_sync)\<close>. The handle
  \<^verbatim>\<open>ctx.request_context.lifespan_context.db\<close> designates the server, which the model
  passes explicitly; \<open>cur\<close> is the event loop of the thread that runs the coroutine.
\<close>

text \<open>The two lines \<^verbatim>\<open>if isinstance(doc.get("_id"), ObjectId): doc["_id"] = str(doc["_id"])\<close>
  shared by \<^verbatim>\<open>get_mongo_item\<close> and \<^verbatim>\<open>list_all_in_collection\<close>.\<close>

definition coerce_object_id :: "document \<Rightarrow> document" where
  "coerce_object_id doc =
     (case map_of doc ''_id'' of
        Some (PObjectId oid) \<Rightarrow> AList.update ''_id'' (PStr (py_str (PObjectId oid))) doc
      | _ \<Rightarrow> doc)"

definition check_connection_sync :: "string db_call" where
  "check_connection_sync srv =
     (case command_ping srv of
        Inr u \<Rightarrow> (Inr ''Connected'', srv)
      | Inl e \<Rightarrow> if is_ConnectionFailure e then (Inr ''Connection Error'', srv) else (Inl e, srv))"

definition get_app_info :: "event_loop option \<Rightarrow> (string \<Rightarrow> string option) \<Rightarrow> pyval db_call" where
  "get_app_info cur environ srv =
     (case run_sync cur check_connection_sync srv of
        (Inl e, srv') \<Rightarrow> (Inl e, srv')
      | (Inr db_status, srv') \<Rightarrow>
          (Inr (PDict
             [(''server_name'', PStr mcp_name),
              (''server_version'', PStr ''1.0.0''),
              (''mongodb_uri'', PStr (MONGODB_URI environ)),
              (''database_name'', PStr DATABASE_NAME),
              (''db_status'', PStr db_status)]), srv'))"

definition get_mongo_item_db_call_sync :: "string \<Rightarrow> string \<Rightarrow> pyval db_call" where
  "get_mongo_item_db_call_sync collection_name item_id srv =
     (let query = [(''name'', PStr item_id)];
          not_found =
            PDict
              [(''found'', PBool False),
               (''collection'', PStr collection_name),
               (''query'', PDict query),
               (''message'', PStr ''Item not found'')]
      in case find_one collection_name query srv of
           Inl e \<Rightarrow> (Inl e, srv)
         | Inr None \<Rightarrow> (Inr not_found, srv)
         | Inr (Some document) \<Rightarrow>
             (if truthy (PDict document)
              then (Inr (PDict
                      [(''found'', PBool True),
                       (''collection'', PStr collection_name),
                       (''item'', PDict (coerce_object_id document))]), srv)
              else (Inr not_found, srv)))"

definition get_mongo_item :: "event_loop option \<Rightarrow> string \<Rightarrow> string \<Rightarrow> pyval db_call" where
  "get_mongo_item cur collection_name item_id =
     run_sync cur (get_mongo_item_db_call_sync collection_name item_id)"

text \<open>The \<^verbatim>\<open>for doc in cursor\<close> loop of \<^verbatim>\<open>list_all_in_collection\<close>, on the documents
  the cursor yields.\<close>

fun append_documents :: "document list \<Rightarrow> document list \<Rightarrow> document list" where
  "append_documents documents_list [] = documents_list"
| "append_documents documents_list (doc # rest) =
     append_documents (documents_list @ [coerce_object_id doc]) rest"

definition list_all_in_collection_db_call_sync :: "string \<Rightarrow> pyval db_call" where
  "list_all_in_collection_db_call_sync collection_name srv =
     (let cursor = limit (find collection_name [] srv) 20
      in case iterate cursor of
           Inl e \<Rightarrow> (Inl e, srv)
         | Inr docs \<Rightarrow>
             (let documents_list = append_documents [] docs
              in (Inr (PDict
                    [(''collection'', PStr collection_name),
                     (''count'', PInt (int (length documents_list))),
                     (''items'', PList (map PDict documents_list))]), srv)))"

definition list_all_in_collection :: "event_loop option \<Rightarrow> string \<Rightarrow> pyval db_call" where
  "list_all_in_collection cur collection_name =
     run_sync cur (list_all_in_collection_db_call_sync collection_name)"

definition list_mongo_collections_db_call_sync :: "pyval db_call" where
  "list_mongo_collections_db_call_sync srv =
     (case list_collection_names srv of
        Inr names \<Rightarrow> (Inr (PList (map PStr names)), srv)
      | Inl e \<Rightarrow> (Inr (PList [PStr (''Error listing collections: '' @ str_exception e)]), srv))"

definition list_mongo_collections :: "event_loop option \<Rightarrow> pyval db_call" where
  "list_mongo_collections cur = run_sync cur list_mongo_collections_db_call_sync"

section \<open>Tools\<close>





section \<open>Resource templates\<close>










section \<open>Auxiliary notions for the properties\<close>

text \<open>The event loop of the thread in which the framework runs a handler.\<close>

definition serving_loop :: "event_loop option" where
  "serving_loop = Some \<lparr>running = True\<rparr>"

text \<open>In a trace of the lifespan, every \<open>Yield\<close> comes after a \<open>Ping\<close>.\<close>

fun ping_before_yield :: "bool \<Rightarrow> event list \<Rightarrow> bool" where
  "ping_before_yield pinged [] = True"
| "ping_before_yield pinged (Ping # es) = ping_before_yield True es"
| "ping_before_yield pinged (Yield c # es) = (pinged \<and> ping_before_yield pinged es)"
| "ping_before_yield pinged (Print s # es) = ping_before_yield pinged es"
| "ping_before_yield pinged (Connect s # es) = ping_before_yield pinged es"
| "ping_before_yield pinged (Close # es) = ping_before_yield pinged es"

text \<open>A small database: the collection \<^verbatim>\<open>parts\<close> holds a widget whose \<^verbatim>\<open>_id\<close> was
  generated and a gear that was stored under the \<^verbatim>\<open>_id\<close> 42.\<close>

definition parts_server :: mongo_server where
  "parts_server =
     \<lparr>collections =
        [(''parts'',
          [[(''_id'', PObjectId (ObjectId 7)), (''name'', PStr ''widget''), (''qty'', PInt 3)],
           [(''_id'', PInt 42), (''name'', PStr ''gear'')]])],
      fault = None,
      next_oid = 8\<rparr>"

definition unreachable_server :: mongo_server where
  "unreachable_server =
     \<lparr>collections = [],
      fault = Some (ServerSelectionTimeoutError ''localhost:27017: connection refused''),
      next_oid = 0\<rparr>"

text \<open>A collection with more documents than a listing returns.\<close>

definition crowded_server :: mongo_server where
  "crowded_server =
     \<lparr>collections =
        [(''bolts'', map (\<lambda>i. [(''_id'', PInt (int i)), (''name'', PStr ''bolt'')]) [0..<25])],
      fault = None,
      next_oid = 0\<rparr>"

section \<open>The execution bridge\<close>

lemma run_sync_serving [simp]: "run_sync serving_loop func srv = func srv"
  by (simp add: serving_loop_def run_sync_def get_running_loop_def is_running_def to_thread_def)

lemma run_sync_cases:
  "run_sync cur func srv =
     (case cur of
        None \<Rightarrow> (Inl (RuntimeError ''no running event loop''), srv)
      | Some l \<Rightarrow>
          if running l then func srv else (Inl (RuntimeError ''no running event loop''), srv))"
  by (simp add: run_sync_def get_running_loop_def is_running_def to_thread_def
      split: option.splits)

text \<open>
  Claim C3. The claim: without a running scheduler \<^verbatim>\<open>run_sync\<close> falls back to calling
  the operation directly and gives what the offloaded path gives. The code: the test
  \<^verbatim>\<open>asyncio.get_running_loop().is_running()\<close> raises \<^verbatim>\<open>RuntimeError\<close> when no loop is
  running, so the operation is never reached and its result is lost, whatever the
  operation is; the direct call in the \<^verbatim>\<open>else\<close> branch cannot be reached.
\<close>

theorem run_sync_without_running_loop_raises:
  "run_sync None func srv = (Inl (RuntimeError ''no running event loop''), srv) \<and>
   run_sync (Some \<lparr>running = False\<rparr>) func srv
     = (Inl (RuntimeError ''no running event loop''), srv)"
  by (simp add: run_sync_cases)

section \<open>Startup\<close>

text \<open>
  Claim C4. At startup the ping comes before the context is yielded; when the ping
  raises, the exception leaves \<^verbatim>\<open>app_lifespan_sync\<close> and no context is yielded, so the
  server never runs on an unverified connection.
\<close>

theorem app_lifespan_sync_ping_guards_yield:
  "ping_before_yield False (fst (app_lifespan_sync environ srv body)) \<and>
   (command_ping srv = Inl e \<longrightarrow>
      snd (app_lifespan_sync environ srv body) = Inl e \<and>
      (\<forall>c. Yield c \<notin> set (fst (app_lifespan_sync environ srv body))))"
  by (auto simp: app_lifespan_sync_def Let_def split: sum.splits)

theorem app_lifespan_sync_ping_guards_yield_witness:
  "command_ping unreachable_server
     = Inl (ServerSelectionTimeoutError ''localhost:27017: connection refused'') \<and>
   snd (app_lifespan_sync Map.empty unreachable_server (\<lambda>c. Inr ()))
     = Inl (ServerSelectionTimeoutError ''localhost:27017: connection refused'') \<and>
   (\<forall>c. Yield c \<notin> set (fst (app_lifespan_sync Map.empty unreachable_server (\<lambda>c. Inr ()))))"
proof -
  have ping: "command_ping unreachable_server
      = Inl (ServerSelectionTimeoutError ''localhost:27017: connection refused'')"
    by (simp add: command_ping_def unreachable_server_def)
  with app_lifespan_sync_ping_guards_yield
    [of Map.empty unreachable_server "\<lambda>c. Inr ()"
        "ServerSelectionTimeoutError ''localhost:27017: connection refused''"]
  show ?thesis by blast
qed

section \<open>Exceptions of the database in the handlers\<close>

text \<open>
  Claim C2. The claim: every handler catches every exception of its database call and
  returns a structured failure. The code: \<^verbatim>\<open>add_mongo_item\<close>, \<^verbatim>\<open>delete_mongo_item\<close> and
  \<^verbatim>\<open>list_mongo_collections\<close> wrap the call in \<^verbatim>\<open>try ... except Exception\<close>, but
  \<^verbatim>\<open>get_mongo_item\<close> and \<^verbatim>\<open>list_all_in_collection\<close> have no \<^verbatim>\<open>try\<close>: whatever
  \<^verbatim>\<open>find_one\<close> or the iteration of the cursor raises leaves the handler.
\<close>

theorem read_handlers_propagate_exceptions:
  "get_mongo_item serving_loop collection_name item_id (srv\<lparr>fault := Some e\<rparr>)
     = (Inl e, srv\<lparr>fault := Some e\<rparr>) \<and>
   list_all_in_collection serving_loop collection_name (srv\<lparr>fault := Some e\<rparr>)
     = (Inl e, srv\<lparr>fault := Some e\<rparr>)"
  by (simp add: get_mongo_item_def get_mongo_item_db_call_sync_def find_one_def
      list_all_in_collection_def list_all_in_collection_db_call_sync_def
      iterate_def find_def limit_def)

section \<open>Enumeration of the collections\<close>

text \<open>
  Claim C9. When \<^verbatim>\<open>list_collection_names\<close> returns, \<^verbatim>\<open>list_mongo_collections\<close> returns
  the names of the collections that exist; when it raises, the handler returns a list
  with one string, \<^verbatim>\<open>Error listing collections: \<close> followed by the exception's message,
  and raises nothing.
\<close>

theorem list_mongo_collections_result:
  "(list_collection_names srv = Inr names \<longrightarrow>
      names = map fst (collections srv) \<and>
      list_mongo_collections serving_loop srv = (Inr (PList (map PStr names)), srv)) \<and>
   (list_collection_names srv = Inl e \<longrightarrow>
      list_mongo_collections serving_loop srv
        = (Inr (PList [PStr (''Error listing collections: '' @ str_exception e)]), srv))"
  by (auto simp: list_mongo_collections_def list_mongo_collections_db_call_sync_def
      list_collection_names_def split: option.splits)

theorem list_mongo_collections_result_witness:
  "list_collection_names parts_server = Inr [''parts''] \<and>
   list_mongo_collections serving_loop parts_server = (Inr (PList [PStr ''parts'']), parts_server) \<and>
   list_collection_names unreachable_server
     = Inl (ServerSelectionTimeoutError ''localhost:27017: connection refused'') \<and>
   list_mongo_collections serving_loop unreachable_server
     = (Inr (PList [PStr ''Error listing collections: localhost:27017: connection refused'']),
        unreachable_server)"
proof -
  have ok: "list_collection_names parts_server = Inr [''parts'']"
    by (simp add: list_collection_names_def parts_server_def)
  have ko: "list_collection_names unreachable_server
      = Inl (ServerSelectionTimeoutError ''localhost:27017: connection refused'')"
    by (simp add: list_collection_names_def unreachable_server_def)
  from ok ko
    list_mongo_collections_result [of parts_server "[''parts'']"]
    list_mongo_collections_result
      [of unreachable_server _ "ServerSelectionTimeoutError ''localhost:27017: connection refused''"]
  show ?thesis by simp
qed

section \<open>Deletion\<close>










section \<open>Listing a collection\<close>

lemma append_documents_map:
  "append_documents acc docs = acc @ map coerce_object_id docs"
  by (induction docs arbitrary: acc) auto

lemma matches_query_empty [simp]: "matches_query [] d"
  by (simp add: matches_query_def)

lemma iterate_limit_find:
  "fault srv = None \<Longrightarrow> iterate (limit (find name [] srv) 20) = Inr (take 20 (docs_of srv name))"
  by (simp add: iterate_def limit_def find_def)

lemma list_all_in_collection_value:
  "fault srv = None \<Longrightarrow>
   list_all_in_collection serving_loop collection_name srv =
     (Inr (PDict
        [(''collection'', PStr collection_name),
         (''count'', PInt (int (length (take 20 (docs_of srv collection_name))))),
         (''items'',
          PList (map PDict (map coerce_object_id (take 20 (docs_of srv collection_name)))))]),
      srv)"
  by (simp add: list_all_in_collection_def list_all_in_collection_db_call_sync_def
      iterate_limit_find append_documents_map Let_def)

text \<open>
  Claim C6. Whatever the number of documents in the collection, the \<^verbatim>\<open>items\<close> of the
  result of \<^verbatim>\<open>list_all_in_collection\<close> are at most 20: they are the first 20 documents
  of the collection, each with its \<^verbatim>\<open>ObjectId\<close> turned into a string.
\<close>

theorem list_all_in_collection_at_most_20:
  assumes "fault srv = None"
  shows "\<exists>kvs items.
           fst (list_all_in_collection serving_loop collection_name srv) = Inr (PDict kvs) \<and>
           map_of kvs ''items'' = Some (PList items) \<and>
           items = map PDict (map coerce_object_id (take 20 (docs_of srv collection_name))) \<and>
           length items \<le> 20"
  using assms by (simp add: list_all_in_collection_value)

theorem list_all_in_collection_at_most_20_witness:
  "fault crowded_server = None \<and>
   length (docs_of crowded_server ''bolts'') = 25 \<and>
   (\<exists>kvs items.
      fst (list_all_in_collection serving_loop ''bolts'' crowded_server) = Inr (PDict kvs) \<and>
      map_of kvs ''items'' = Some (PList items) \<and>
      length items = 20)"
proof -
  have f: "fault crowded_server = None"
    by (simp add: crowded_server_def)
  have n: "length (docs_of crowded_server ''bolts'') = 25"
    by (simp add: crowded_server_def docs_of_def)
  from list_all_in_collection_at_most_20 [OF f, of "''bolts''"] n
  have "\<exists>kvs items.
      fst (list_all_in_collection serving_loop ''bolts'' crowded_server) = Inr (PDict kvs) \<and>
      map_of kvs ''items'' = Some (PList items) \<and>
      length items = 20"
    by auto
  with f n show ?thesis by blast
qed

text \<open>
  Claim C10. In every result of \<^verbatim>\<open>list_all_in_collection\<close>, \<^verbatim>\<open>count\<close> is the number of
  elements of \<^verbatim>\<open>items\<close>.
\<close>

theorem list_all_in_collection_count:
  assumes "fst (list_all_in_collection serving_loop collection_name srv) = Inr r"
  shows "\<exists>kvs n items.
           r = PDict kvs \<and> map_of kvs ''count'' = Some (PInt n) \<and>
           map_of kvs ''items'' = Some (PList items) \<and> n = int (length items)"
proof (cases "fault srv")
  case None
  with assms show ?thesis
    by (auto simp: list_all_in_collection_value)
next
  case (Some e)
  then have "fst (list_all_in_collection serving_loop collection_name srv) = Inl e"
    by (simp add: list_all_in_collection_def list_all_in_collection_db_call_sync_def
        iterate_def limit_def find_def)
  with assms show ?thesis by simp
qed

theorem list_all_in_collection_count_witness:
  "fst (list_all_in_collection serving_loop ''parts'' parts_server)
     = Inr (PDict
         [(''collection'', PStr ''parts''),
          (''count'', PInt 2),
          (''items'',
           PList
            [PDict [(''_id'', PStr ''000000000000000000000007''), (''name'', PStr ''widget''),
                    (''qty'', PInt 3)],
             PDict [(''_id'', PInt 42), (''name'', PStr ''gear'')]])]) \<and>
   (\<exists>kvs n items.
      PDict
         [(''collection'', PStr ''parts''),
          (''count'', PInt 2),
          (''items'',
           PList
            [PDict [(''_id'', PStr ''000000000000000000000007''), (''name'', PStr ''widget''),
                    (''qty'', PInt 3)],
             PDict [(''_id'', PInt 42), (''name'', PStr ''gear'')]])] = PDict kvs \<and>
      map_of kvs ''count'' = Some (PInt n) \<and>
      map_of kvs ''items'' = Some (PList items) \<and> n = int (length items))"
proof -
  have hex: "hex_fixed 24 7 = ''000000000000000000000007''"
    by code_simp
  have v: "fst (list_all_in_collection serving_loop ''parts'' parts_server)
     = Inr (PDict
         [(''collection'', PStr ''parts''),
          (''count'', PInt 2),
          (''items'',
           PList
            [PDict [(''_id'', PStr ''000000000000000000000007''), (''name'', PStr ''widget''),
                    (''qty'', PInt 3)],
             PDict [(''_id'', PInt 42), (''name'', PStr ''gear'')]])])"
    by (simp add: list_all_in_collection_def list_all_in_collection_db_call_sync_def
        iterate_def limit_def find_def parts_server_def docs_of_def coerce_object_id_def hex)
  from v list_all_in_collection_count [OF v] show ?thesis by blast
qed

section \<open>Fetching one item\<close>









section \<open>Results of the tools\<close>


section \<open>Overlap of the resource templates\<close>














end
